theory Spec2Isabelle
  imports Complex_Main
begin

section \<open>JavaScript numbers and arrays\<close>

text \<open>
  The engine computes with JavaScript numbers. A number is modelled as an exact real, or one
  of the three non-finite values a division can produce. The binary rounding of doubles and
  the sign of zero are not modelled: every finite result is the exact one, and a division by
  zero treats the divisor as \<open>+0\<close>. Prices, balances and the other numbers the engine
  reads from its collaborators are finite (\<^typ>\<open>real\<close>).
\<close>

datatype number = Fin real | PInf | NInf | NaN

fun num_neg :: "number \<Rightarrow> number" where
  "num_neg (Fin a) = Fin (- a)"
| "num_neg PInf = NInf"
| "num_neg NInf = PInf"
| "num_neg NaN = NaN"

fun num_add :: "number \<Rightarrow> number \<Rightarrow> number" where
  "num_add (Fin a) (Fin b) = Fin (a + b)"
| "num_add NaN _ = NaN"
| "num_add _ NaN = NaN"
| "num_add PInf NInf = NaN"
| "num_add NInf PInf = NaN"
| "num_add PInf _ = PInf"
| "num_add NInf _ = NInf"
| "num_add _ PInf = PInf"
| "num_add _ NInf = NInf"

definition num_sub :: "number \<Rightarrow> number \<Rightarrow> number" where
  "num_sub a b = num_add a (num_neg b)"

fun num_sign :: "real \<Rightarrow> number \<Rightarrow> number" where
  "num_sign s v = (if s > 0 then v else if s < 0 then num_neg v else NaN)"

fun num_mul :: "number \<Rightarrow> number \<Rightarrow> number" where
  "num_mul (Fin a) (Fin b) = Fin (a * b)"
| "num_mul NaN _ = NaN"
| "num_mul _ NaN = NaN"
| "num_mul (Fin a) PInf = num_sign a PInf"
| "num_mul (Fin a) NInf = num_sign a NInf"
| "num_mul PInf (Fin b) = num_sign b PInf"
| "num_mul NInf (Fin b) = num_sign b NInf"
| "num_mul PInf PInf = PInf"
| "num_mul NInf NInf = PInf"
| "num_mul PInf NInf = NInf"
| "num_mul NInf PInf = NInf"

fun num_div :: "number \<Rightarrow> number \<Rightarrow> number" where
  "num_div (Fin a) (Fin b) = (if b \<noteq> 0 then Fin (a / b) else num_sign a PInf)"
| "num_div NaN _ = NaN"
| "num_div _ NaN = NaN"
| "num_div (Fin a) PInf = Fin 0"
| "num_div (Fin a) NInf = Fin 0"
| "num_div PInf (Fin b) = (if b < 0 then NInf else PInf)"
| "num_div NInf (Fin b) = (if b < 0 then PInf else NInf)"
| "num_div PInf PInf = NaN"
| "num_div PInf NInf = NaN"
| "num_div NInf PInf = NaN"
| "num_div NInf NInf = NaN"

text \<open>Comparisons: every comparison with \<open>NaN\<close> is false.\<close>

fun num_lt :: "number \<Rightarrow> number \<Rightarrow> bool" where
  "num_lt (Fin a) (Fin b) = (a < b)"
| "num_lt NaN _ = False"
| "num_lt _ NaN = False"
| "num_lt NInf NInf = False"
| "num_lt NInf _ = True"
| "num_lt PInf _ = False"
| "num_lt (Fin a) PInf = True"
| "num_lt (Fin a) NInf = False"

fun num_eq :: "number \<Rightarrow> number \<Rightarrow> bool" where
  "num_eq NaN _ = False"
| "num_eq _ NaN = False"
| "num_eq a b = (a = b)"

definition num_le :: "number \<Rightarrow> number \<Rightarrow> bool" where
  "num_le a b = (num_lt a b \<or> num_eq a b)"

definition num_gt :: "number \<Rightarrow> number \<Rightarrow> bool" where
  "num_gt a b = num_lt b a"

definition num_ge :: "number \<Rightarrow> number \<Rightarrow> bool" where
  "num_ge a b = num_le b a"

text \<open>\<open>Math.abs\<close>, \<open>Math.min\<close> of two arguments and \<open>Math.round\<close> (halves go up).\<close>

fun Math_abs :: "number \<Rightarrow> number" where
  "Math_abs (Fin a) = Fin \<bar>a\<bar>"
| "Math_abs PInf = PInf"
| "Math_abs NInf = PInf"
| "Math_abs NaN = NaN"

fun Math_min :: "number \<Rightarrow> number \<Rightarrow> number" where
  "Math_min NaN _ = NaN"
| "Math_min _ NaN = NaN"
| "Math_min a b = (if num_lt b a then b else a)"

fun Math_round :: "number \<Rightarrow> number" where
  "Math_round (Fin a) = Fin (of_int \<lfloor>a + 1 / 2\<rfloor>)"
| "Math_round PInf = PInf"
| "Math_round NInf = NInf"
| "Math_round NaN = NaN"

text \<open>A value is truthy unless it is \<open>undefined\<close>, \<open>0\<close> or \<open>NaN\<close>.\<close>

fun truthy :: "number option \<Rightarrow> bool" where
  "truthy None = False"
| "truthy (Some (Fin a)) = (a \<noteq> 0)"
| "truthy (Some NaN) = False"
| "truthy (Some _) = True"

text \<open>
  \<open>Array.prototype.slice\<close>: a negative index counts from the end, and both indices are
  clamped to the array. The indices are integers.
\<close>

definition relative_index :: "nat \<Rightarrow> int \<Rightarrow> nat" where
  "relative_index len i = (if i < 0 then nat (max (int len + i) 0) else min (nat i) len)"

definition slice :: "'a list \<Rightarrow> int \<Rightarrow> int \<Rightarrow> 'a list" where
  "slice xs start final =
     (let k = relative_index (length xs) start;
          fin = relative_index (length xs) final
      in take (fin - k) (drop k xs))"

definition slice_from :: "'a list \<Rightarrow> int \<Rightarrow> 'a list" where
  "slice_from xs start = drop (relative_index (length xs) start) xs"

text \<open>\<open>xs[xs.length - 1]\<close>, which is \<open>undefined\<close> on the empty array and then \<open>NaN\<close> in arithmetic.\<close>

definition last_price :: "real list \<Rightarrow> number" where
  "last_price prices = (if prices = [] then NaN else Fin (last prices))"

section \<open>Data model\<close>

datatype error = Error string

datatype action = BUY | SELL | CLOSE

record TradingSignal =
  symbol :: string
  action :: action
  confidence :: real
  reason :: string
  stopLoss :: "number option"
  takeProfit :: "number option"

record StrategyParams =
  fastMA :: int
  slowMA :: int
  rsiPeriod :: int
  rsiOverbought :: real
  rsiOversold :: real

text \<open>
  The fields of the \<open>bot_settings\<close> table the engine reads. \<open>riskPerTrade\<close> is a decimal
  column and so a string; \<open>strategyParams\<close> is \<open>None\<close> when the stored value is falsy.
\<close>

record BotSettings =
  strategy :: string
  riskPerTrade :: string
  tradingSymbols :: "string list"
  newsAvoidanceMinutes :: int
  strategyParams :: "StrategyParams option"

record TradingBot =
  accountId :: string
  isRunning :: bool
  settings :: "BotSettings option"
  priceHistory :: "string \<rightharpoonup> real list"
  lastSignalTime :: "string \<rightharpoonup> int"
  updateInterval :: bool

definition minSignalInterval :: int where
  "minSignalInterval = 5 * 60 * 1000"

definition createTradingBot :: "string \<Rightarrow> TradingBot" where
  "createTradingBot acc =
     \<lparr>accountId = acc, isRunning = False, settings = None, priceHistory = Map.empty,
      lastSignalTime = Map.empty, updateInterval = False\<rparr>"

definition defaultParams :: StrategyParams where
  "defaultParams =
     \<lparr>fastMA = 10, slowMA = 20, rsiPeriod = 14, rsiOverbought = 70, rsiOversold = 30\<rparr>"

text \<open>\<open>this.settings?.strategyParams || {defaults}\<close>\<close>

definition paramsOf :: "TradingBot \<Rightarrow> StrategyParams" where
  "paramsOf b =
     (case settings b of
        None \<Rightarrow> defaultParams
      | Some st \<Rightarrow> (case strategyParams st of None \<Rightarrow> defaultParams | Some p \<Rightarrow> p))"

section \<open>Price history\<close>

definition updatePriceHistory :: "TradingBot \<Rightarrow> string \<Rightarrow> real \<Rightarrow> TradingBot" where
  "updatePriceHistory b s price =
     (let history = (case priceHistory b s of None \<Rightarrow> [] | Some h \<Rightarrow> h);
          history = history @ [price];
          history = (if length history > 200 then tl history else history)
      in b\<lparr>priceHistory := (priceHistory b)(s \<mapsto> history)\<rparr>)"

text \<open>\<open>get(symbol)\<close>: the recorded sequence, empty for a symbol never recorded.\<close>

definition historyOf :: "TradingBot \<Rightarrow> string \<Rightarrow> real list" where
  "historyOf b s = (case priceHistory b s of None \<Rightarrow> [] | Some h \<Rightarrow> h)"

text \<open>A sequence of \<open>record(symbol, price)\<close> operations, applied in order.\<close>

fun recordAll :: "TradingBot \<Rightarrow> (string \<times> real) list \<Rightarrow> TradingBot" where
  "recordAll b [] = b"
| "recordAll b ((s, price) # ops) = recordAll (updatePriceHistory b s price) ops"

text \<open>The prices observed for one symbol, in the order of observation.\<close>

definition observed :: "string \<Rightarrow> (string \<times> real) list \<Rightarrow> real list" where
  "observed s ops = map snd (filter (\<lambda>op. fst op = s) ops)"

section \<open>Indicator library\<close>

definition calculateSMA :: "real list \<Rightarrow> int \<Rightarrow> number" where
  "calculateSMA prices period =
     (let sl = slice_from prices (- period)
      in num_div (Fin (foldl (\<lambda>sum price. sum + price) 0 sl)) (Fin (real (length sl))))"

text \<open>The loop of \<open>calculateRSI\<close> over the adjacent pairs, for each of its two arrays.\<close>

fun gains :: "real list \<Rightarrow> real list" where
  "gains (p0 # p1 # rest) =
     (let change = p1 - p0 in (if change > 0 then change else 0) # gains (p1 # rest))"
| "gains _ = []"

fun losses :: "real list \<Rightarrow> real list" where
  "losses (p0 # p1 # rest) =
     (let change = p1 - p0 in (if change < 0 then \<bar>change\<bar> else 0) # losses (p1 # rest))"
| "losses _ = []"

definition avgGain :: "real list \<Rightarrow> int \<Rightarrow> number" where
  "avgGain prices period =
     num_div (Fin (foldl (\<lambda>sum gain. sum + gain) 0 (slice_from (gains prices) (- period))))
             (Fin (real_of_int period))"

definition avgLoss :: "real list \<Rightarrow> int \<Rightarrow> number" where
  "avgLoss prices period =
     num_div (Fin (foldl (\<lambda>sum loss. sum + loss) 0 (slice_from (losses prices) (- period))))
             (Fin (real_of_int period))"

definition calculateRSI :: "real list \<Rightarrow> int \<Rightarrow> number" where
  "calculateRSI prices period =
     (if int (length prices) < period + 1 then Fin 50
      else if num_eq (avgLoss prices period) (Fin 0) then Fin 100
      else let rs = num_div (avgGain prices period) (avgLoss prices period)
           in num_sub (Fin 100) (num_div (Fin 100) (num_add (Fin 1) rs)))"

section \<open>Number formatting and parsing\<close>

text \<open>
  \<open>Number.prototype.toFixed(2)\<close>: the nearest number of hundredths, the larger one at a
  tie, printed with two decimals (the exponent form used for very large magnitudes is not
  modelled).
\<close>

definition digit_char :: "nat \<Rightarrow> char" where
  "digit_char n = char_of (48 + n)"

function decimal :: "nat \<Rightarrow> string" where
  "decimal n = (if n < 10 then [digit_char n] else decimal (n div 10) @ [digit_char (n mod 10)])"
  by pat_completeness auto
termination
  by (relation "measure id") auto

declare decimal.simps [simp del]

fun toFixed2 :: "number \<Rightarrow> string" where
  "toFixed2 NaN = ''NaN''"
| "toFixed2 PInf = ''Infinity''"
| "toFixed2 NInf = ''-Infinity''"
| "toFixed2 (Fin x) =
     (let n = nat \<lfloor>\<bar>x\<bar> * 100 + 1 / 2\<rfloor>
      in (if x < 0 then ''-'' else []) @ decimal (n div 100) @ ''.''
         @ [digit_char (n mod 100 div 10), digit_char (n mod 10)])"

text \<open>
  \<open>parseFloat\<close>: leading white space is skipped, then the longest prefix that is a decimal
  literal is read (a sign, \<open>Infinity\<close> or digits with an optional fraction and an optional
  exponent); \<open>NaN\<close> when there is none.
\<close>

definition is_digit :: "char \<Rightarrow> bool" where
  "is_digit c = (48 \<le> (of_char c :: nat) \<and> (of_char c :: nat) \<le> 57)"

definition is_space :: "char \<Rightarrow> bool" where
  "is_space c = ((of_char c :: nat) \<in> {9, 10, 11, 12, 13, 32})"

fun digits_value :: "nat \<Rightarrow> string \<Rightarrow> nat" where
  "digits_value acc [] = acc"
| "digits_value acc (c # cs) = digits_value (acc * 10 + ((of_char c :: nat) - 48)) cs"

fun exponent_part :: "string \<Rightarrow> (bool \<times> nat) option" where
  "exponent_part (c # cs) =
     (if c = CHR ''e'' \<or> c = CHR ''E'' then
        (let (neg, ds) =
               (case cs of
                  [] \<Rightarrow> (False, [])
                | d # rest \<Rightarrow>
                    if d = CHR ''-'' then (True, rest)
                    else if d = CHR ''+'' then (False, rest)
                    else (False, cs))
         in if takeWhile is_digit ds = [] then None
            else Some (neg, digits_value 0 (takeWhile is_digit ds)))
      else None)"
| "exponent_part [] = None"

definition unsigned_literal :: "string \<Rightarrow> number" where
  "unsigned_literal str =
     (if take 8 str = ''Infinity'' then PInf
      else
        let ip = takeWhile is_digit str;
            after = dropWhile is_digit str;
            fp = (case after of [] \<Rightarrow> [] | c # t \<Rightarrow> if c = CHR ''.'' then takeWhile is_digit t else []);
            rest = (case after of [] \<Rightarrow> [] | c # t \<Rightarrow> if c = CHR ''.'' then dropWhile is_digit t else after);
            mantissa = real (digits_value 0 ip) + real (digits_value 0 fp) / 10 ^ length fp
        in if ip = [] \<and> fp = [] then NaN
           else (case exponent_part rest of
                   None \<Rightarrow> Fin mantissa
                 | Some (neg, e) \<Rightarrow> Fin (if neg then mantissa / 10 ^ e else mantissa * 10 ^ e)))"

definition parseFloat :: "string \<Rightarrow> number" where
  "parseFloat str =
     (case dropWhile is_space str of
        [] \<Rightarrow> NaN
      | c # t \<Rightarrow>
          if c = CHR ''-'' then num_neg (unsigned_literal t)
          else if c = CHR ''+'' then unsigned_literal t
          else unsigned_literal (c # t))"

section \<open>Signal generator\<close>

definition maStrategy :: "TradingBot \<Rightarrow> string \<Rightarrow> real list \<Rightarrow> TradingSignal option" where
  "maStrategy b s prices =
     (let params = paramsOf b
      in if int (length prices) < slowMA params then None
         else
           let fast = calculateSMA prices (fastMA params);
               slow = calculateSMA prices (slowMA params);
               prevFast = calculateSMA (slice prices 0 (- 1)) (fastMA params);
               prevSlow = calculateSMA (slice prices 0 (- 1)) (slowMA params);
               currentPrice = last_price prices
           in if num_le prevFast prevSlow \<and> num_gt fast slow then
                Some \<lparr>symbol = s, action = BUY, confidence = 0.7,
                      reason = ''MA Bullish Crossover'',
                      stopLoss = Some (num_mul currentPrice (Fin 0.995)),
                      takeProfit = Some (num_mul currentPrice (Fin 1.01))\<rparr>
              else if num_ge prevFast prevSlow \<and> num_lt fast slow then
                Some \<lparr>symbol = s, action = SELL, confidence = 0.7,
                      reason = ''MA Bearish Crossover'',
                      stopLoss = Some (num_mul currentPrice (Fin 1.005)),
                      takeProfit = Some (num_mul currentPrice (Fin 0.99))\<rparr>
              else None)"

definition rsiStrategy :: "TradingBot \<Rightarrow> string \<Rightarrow> real list \<Rightarrow> TradingSignal option" where
  "rsiStrategy b s prices =
     (let params = paramsOf b
      in if int (length prices) < rsiPeriod params + 1 then None
         else
           let rsi = calculateRSI prices (rsiPeriod params);
               currentPrice = last_price prices
           in if num_lt rsi (Fin (rsiOversold params)) then
                Some \<lparr>symbol = s, action = BUY, confidence = 0.6,
                      reason = ''RSI Oversold ('' @ toFixed2 rsi @ '')'',
                      stopLoss = Some (num_mul currentPrice (Fin 0.995)),
                      takeProfit = Some (num_mul currentPrice (Fin 1.015))\<rparr>
              else if num_gt rsi (Fin (rsiOverbought params)) then
                Some \<lparr>symbol = s, action = SELL, confidence = 0.6,
                      reason = ''RSI Overbought ('' @ toFixed2 rsi @ '')'',
                      stopLoss = Some (num_mul currentPrice (Fin 1.005)),
                      takeProfit = Some (num_mul currentPrice (Fin 0.985))\<rparr>
              else None)"

text \<open>\<open>this.settings?.strategy || 'ma_crossover'\<close>: the empty string is falsy.\<close>

definition strategyOf :: "TradingBot \<Rightarrow> string" where
  "strategyOf b =
     (case settings b of
        None \<Rightarrow> ''ma_crossover''
      | Some st \<Rightarrow> if strategy st = [] then ''ma_crossover'' else strategy st)"

definition generateTradingSignal :: "TradingBot \<Rightarrow> string \<Rightarrow> TradingSignal option" where
  "generateTradingSignal b s =
     (case priceHistory b s of
        None \<Rightarrow> None
      | Some prices \<Rightarrow>
          if length prices < 50 then None
          else if strategyOf b = ''ma_crossover'' then maStrategy b s prices
          else if strategyOf b = ''rsi_strategy'' then rsiStrategy b s prices
          else maStrategy b s prices)"

section \<open>Admission controller\<close>

text \<open>\<open>now\<close> is the value of \<open>Date.now()\<close>, in milliseconds.\<close>

definition shouldExecuteSignal :: "TradingBot \<Rightarrow> string \<Rightarrow> TradingSignal \<Rightarrow> int \<Rightarrow> bool" where
  "shouldExecuteSignal b s signal now =
     (let lastSignal = (case lastSignalTime b s of None \<Rightarrow> 0 | Some t \<Rightarrow> t)
      in if now - lastSignal < minSignalInterval then False
         else if confidence signal < 0.5 then False
         else True)"

section \<open>Collaborators\<close>

text \<open>
  The gateway, the news calendar and the store are outside the engine. Their answers are
  inputs of the model: a call either returns a value (\<open>Inr\<close>) or throws (\<open>Inl\<close>).
\<close>

record MT5AccountInfo =
  balance :: real
  equity :: real

record MT5PriceData =
  bid :: real
  ask :: real

datatype order_type = ORDER_TYPE_BUY | ORDER_TYPE_SELL

record OrderRequest =
  req_action :: string
  req_symbol :: string
  volume :: number
  req_type :: order_type
  deviation :: nat
  sl :: "number option"
  tp :: "number option"
  comment :: string
  magic :: nat

record OrderResult =
  ticket :: string
  result_volume :: number
  result_price :: real

text \<open>The numeric fields of a trade are kept as numbers; the store receives their decimal text.\<close>

record InsertTrade =
  trade_accountId :: string
  trade_ticket :: string
  trade_symbol :: string
  trade_type :: action
  trade_volume :: number
  entryPrice :: real
  trade_stopLoss :: "number option"
  trade_takeProfit :: "number option"
  trade_comment :: string
  isManual :: bool

record NewsEvent =
  title :: string
  currency :: string
  impact :: string

text \<open>
  What the collaborators answer during the evaluation of one symbol, in the order of the
  calls: the news lookup (by the number of hours ahead), the price fetch of the loop,
  \<open>Date.now()\<close> at the admission check, then inside \<open>executeSignal\<close> the account, the
  second price fetch, the order, the store and \<open>Date.now()\<close> again.
\<close>

record responses =
  getUpcomingNews :: "real \<Rightarrow> error + NewsEvent list"
  getSymbolInfo :: "string \<Rightarrow> error + MT5PriceData"
  dateNow :: int
  getAccountInfo :: "error + MT5AccountInfo"
  getSymbolInfoExec :: "string \<Rightarrow> error + MT5PriceData"
  sendOrder :: "OrderRequest \<Rightarrow> error + OrderResult"
  createTrade :: "InsertTrade \<Rightarrow> error + unit"
  dateNowExec :: int

text \<open>
  What the engine does to the outside: the events it emits, the orders it sends and the
  trades it stores. A call is logged when it is made, whether it returns or throws. Emitting
  an event only logs it: a listener for \<open>error\<close> events is taken to be registered (the
  emitter of the platform throws an \<open>error\<close> event that nobody listens to).
\<close>

datatype event =
    StatusChanged string
  | NewsPause string string
  | ErrorEvent error
  | TradeExecuted TradingSignal OrderResult

datatype effect = Emit event | SendOrder OrderRequest | CreateTrade InsertTrade

section \<open>News gate\<close>

definition extractCurrenciesFromSymbol :: "string \<Rightarrow> string list" where
  "extractCurrenciesFromSymbol s = (if length s \<ge> 6 then [slice s 0 3, slice s 3 6] else [])"

definition shouldPauseTradingForNews ::
  "(real \<Rightarrow> error + NewsEvent list) \<Rightarrow> string \<Rightarrow> int \<Rightarrow> bool" where
  "shouldPauseTradingForNews lookup s minutesAhead =
     (let currencies = extractCurrenciesFromSymbol s
      in case lookup (real_of_int minutesAhead / 60) of
           Inl e \<Rightarrow> False
         | Inr events \<Rightarrow>
             list_ex (\<lambda>ev. impact ev = ''high'' \<and> currency ev \<in> set currencies) events)"

section \<open>Risk sizer and execution\<close>

definition riskAmount :: "real \<Rightarrow> string \<Rightarrow> number" where
  "riskAmount bal risk = num_mul (Fin bal) (num_div (parseFloat risk) (Fin 100))"

definition stopLossDistance :: "real \<Rightarrow> number option \<Rightarrow> number" where
  "stopLossDistance currentBid stop =
     (case stop of
        None \<Rightarrow> Fin (currentBid * 0.005)
      | Some v \<Rightarrow>
          if truthy (Some v) then Math_abs (num_sub (Fin currentBid) v)
          else Fin (currentBid * 0.005))"

definition lotVolume :: "number \<Rightarrow> number \<Rightarrow> number" where
  "lotVolume risk distance = Math_min (num_div risk (num_mul distance (Fin 100000))) (Fin 1.0)"

definition roundedVolume :: "number \<Rightarrow> number" where
  "roundedVolume v = num_div (Math_round (num_mul v (Fin 100))) (Fin 100)"

definition orderRequest :: "TradingSignal \<Rightarrow> number \<Rightarrow> OrderRequest" where
  "orderRequest signal v =
     \<lparr>req_action = ''TRADE_ACTION_DEAL'',
      req_symbol = symbol signal,
      volume = roundedVolume v,
      req_type = (if action signal = BUY then ORDER_TYPE_BUY else ORDER_TYPE_SELL),
      deviation = 20,
      sl = stopLoss signal,
      tp = takeProfit signal,
      comment = ''Bot: '' @ reason signal,
      magic = 234000\<rparr>"

definition tradeOf :: "TradingBot \<Rightarrow> TradingSignal \<Rightarrow> OrderResult \<Rightarrow> InsertTrade" where
  "tradeOf b signal result =
     \<lparr>trade_accountId = accountId b,
      trade_ticket = ticket result,
      trade_symbol = symbol signal,
      trade_type = action signal,
      trade_volume = result_volume result,
      entryPrice = result_price result,
      trade_stopLoss = stopLoss signal,
      trade_takeProfit = takeProfit signal,
      trade_comment = reason signal,
      isManual = False\<rparr>"

definition executeSignal ::
  "TradingBot \<Rightarrow> TradingSignal \<Rightarrow> responses \<Rightarrow> TradingBot \<times> effect list" where
  "executeSignal b signal r =
     (case settings b of
        None \<Rightarrow> (b, [])
      | Some st \<Rightarrow>
          (case getAccountInfo r of
             Inl e \<Rightarrow> (b, [Emit (ErrorEvent e)])
           | Inr accountInfo \<Rightarrow>
               (case getSymbolInfoExec r (symbol signal) of
                  Inl e \<Rightarrow> (b, [Emit (ErrorEvent e)])
                | Inr currentPrice \<Rightarrow>
                    let risk = riskAmount (balance accountInfo) (riskPerTrade st);
                        distance = stopLossDistance (bid currentPrice) (stopLoss signal);
                        req = orderRequest signal (lotVolume risk distance)
                    in (case sendOrder r req of
                          Inl e \<Rightarrow> (b, [SendOrder req, Emit (ErrorEvent e)])
                        | Inr result \<Rightarrow>
                            let trade = tradeOf b signal result
                            in (case createTrade r trade of
                                  Inl e \<Rightarrow>
                                    (b, [SendOrder req, CreateTrade trade, Emit (ErrorEvent e)])
                                | Inr u \<Rightarrow>
                                    (b\<lparr>lastSignalTime :=
                                         (lastSignalTime b)(symbol signal \<mapsto> dateNowExec r)\<rparr>,
                                     [SendOrder req, CreateTrade trade,
                                      Emit (TradeExecuted signal result)]))))))"

section \<open>Lifecycle supervisor\<close>

text \<open>
  The body of the loop of \<open>runTradingLoop\<close> for one symbol. \<open>Inl\<close> is an exception that
  leaves the body; only the price fetch can throw one, the news gate and \<open>executeSignal\<close>
  catch their own.
\<close>

definition evaluateSymbol ::
  "TradingBot \<Rightarrow> BotSettings \<Rightarrow> string \<Rightarrow> responses \<Rightarrow> error + TradingBot \<times> effect list" where
  "evaluateSymbol b st s r =
     (if shouldPauseTradingForNews (getUpcomingNews r) s (newsAvoidanceMinutes st) then
        Inr (b, [Emit (NewsPause s ''High impact news event approaching'')])
      else
        (case getSymbolInfo r s of
           Inl e \<Rightarrow> Inl e
         | Inr priceData \<Rightarrow>
             let b1 = updatePriceHistory b s (bid priceData)
             in (case generateTradingSignal b1 s of
                   None \<Rightarrow> Inr (b1, [])
                 | Some signal \<Rightarrow>
                     if shouldExecuteSignal b1 s signal (dateNow r)
                     then Inr (executeSignal b1 signal r)
                     else Inr (b1, []))))"

text \<open>
  The \<open>for\<close> loop over the configured symbols; \<open>env i\<close> holds the answers of the
  collaborators during the \<open>i\<close>-th iteration. An exception ends the loop.
\<close>

fun symbolLoop ::
  "TradingBot \<Rightarrow> BotSettings \<Rightarrow> (nat \<Rightarrow> responses) \<Rightarrow> nat \<Rightarrow> string list
     \<Rightarrow> error option \<times> TradingBot \<times> effect list" where
  "symbolLoop b st env i [] = (None, b, [])"
| "symbolLoop b st env i (s # rest) =
     (case evaluateSymbol b st s (env i) of
        Inl e \<Rightarrow> (Some e, b, [])
      | Inr (b1, effs) \<Rightarrow>
          (case symbolLoop b1 st env (Suc i) rest of
             (res, b2, effs2) \<Rightarrow> (res, b2, effs @ effs2)))"

definition runTradingLoop :: "TradingBot \<Rightarrow> (nat \<Rightarrow> responses) \<Rightarrow> TradingBot \<times> effect list" where
  "runTradingLoop b env =
     (if \<not> isRunning b then (b, [])
      else
        (case settings b of
           None \<Rightarrow> (b, [])
         | Some st \<Rightarrow>
             (case symbolLoop b st env 0 (tradingSymbols st) of
                (None, b1, effs) \<Rightarrow> (b1, effs)
              | (Some e, b1, effs) \<Rightarrow> (b1, effs @ [Emit (ErrorEvent e)]))))"

text \<open>
  \<open>start\<close>, given what \<open>storage.getBotSettings\<close> answers and whether the gateway reports
  a connection; the third component is the returned boolean.
\<close>

definition start ::
  "TradingBot \<Rightarrow> error + BotSettings option \<Rightarrow> bool \<Rightarrow> TradingBot \<times> effect list \<times> bool" where
  "start b stored isConnected =
     (case stored of
        Inl e \<Rightarrow> (b, [Emit (ErrorEvent e)], False)
      | Inr None \<Rightarrow>
          (b\<lparr>settings := None\<rparr>, [Emit (ErrorEvent (Error ''Bot settings not found''))], False)
      | Inr (Some st) \<Rightarrow>
          if \<not> isConnected then
            (b\<lparr>settings := Some st\<rparr>, [Emit (ErrorEvent (Error ''MT5 not connected''))], False)
          else
            (b\<lparr>settings := Some st, isRunning := True, updateInterval := True\<rparr>,
             [Emit (StatusChanged ''running'')], True))"

definition stop :: "TradingBot \<Rightarrow> TradingBot \<times> effect list" where
  "stop b = (b\<lparr>isRunning := False, updateInterval := False\<rparr>, [Emit (StatusChanged ''stopped'')])"


section \<open>Runs of the engine\<close>

text \<open>
  A run is a sequence of evaluations, each of one symbol with the answers the collaborators
  give during it: the iterations of the loop, tick after tick. An evaluation that throws
  leaves the state as it was.
\<close>

fun evaluations :: "TradingBot \<Rightarrow> BotSettings \<Rightarrow> (string \<times> responses) list \<Rightarrow> TradingBot" where
  "evaluations b st [] = b"
| "evaluations b st ((s, r) # rest) =
     (case evaluateSymbol b st s r of
        Inl e \<Rightarrow> evaluations b st rest
      | Inr (b1, effs) \<Rightarrow> evaluations b1 st rest)"

fun isSendOrder :: "effect \<Rightarrow> bool" where
  "isSendOrder (SendOrder req) = True"
| "isSendOrder _ = False"

fun isTradeExecuted :: "effect \<Rightarrow> bool" where
  "isTradeExecuted (Emit (TradeExecuted signal result)) = True"
| "isTradeExecuted _ = False"

section \<open>The demo gateway\<close>

text \<open>
  The gateway the engine is wired to is \<open>MockMT5Service\<close>, with a fixed account and a table
  of six symbols; a symbol outside the table makes the price fetch and the order throw. The
  answers below are the ones it gives at its initial prices, at time \<open>t\<close>, with no news
  stored; the store is a parameter.
\<close>

definition mockPrices :: "(string \<times> MT5PriceData) list" where
  "mockPrices =
     [(''EURUSD'', \<lparr>bid = 1.08675, ask = 1.08685\<rparr>),
      (''GBPUSD'', \<lparr>bid = 1.25450, ask = 1.25465\<rparr>),
      (''USDJPY'', \<lparr>bid = 149.125, ask = 149.135\<rparr>),
      (''USDCHF'', \<lparr>bid = 0.89250, ask = 0.89265\<rparr>),
      (''AUDUSD'', \<lparr>bid = 0.66520, ask = 0.66535\<rparr>),
      (''USDCAD'', \<lparr>bid = 1.35780, ask = 1.35795\<rparr>)]"

definition mockGetSymbolInfo :: "string \<Rightarrow> error + MT5PriceData" where
  "mockGetSymbolInfo s =
     (case map_of mockPrices s of
        None \<Rightarrow> Inl (Error (''Symbol '' @ s @ '' not found''))
      | Some prices \<Rightarrow> Inr prices)"

definition mockSendOrder :: "int \<Rightarrow> OrderRequest \<Rightarrow> error + OrderResult" where
  "mockSendOrder t req =
     (case map_of mockPrices (req_symbol req) of
        None \<Rightarrow> Inl (Error (''Symbol '' @ req_symbol req @ '' not available''))
      | Some currentPrice \<Rightarrow>
          Inr \<lparr>ticket = decimal (nat t),
               result_volume = volume req,
               result_price =
                 (if req_type req = ORDER_TYPE_BUY then ask currentPrice else bid currentPrice)\<rparr>)"

definition mockResponses :: "int \<Rightarrow> (InsertTrade \<Rightarrow> error + unit) \<Rightarrow> responses" where
  "mockResponses t store =
     \<lparr>getUpcomingNews = (\<lambda>hours. Inr []),
      getSymbolInfo = mockGetSymbolInfo,
      dateNow = t,
      getAccountInfo = Inr \<lparr>balance = 2000000, equity = 2001250\<rparr>,
      getSymbolInfoExec = mockGetSymbolInfo,
      sendOrder = mockSendOrder t,
      createTrade = store,
      dateNowExec = t\<rparr>"

text \<open>
  Settings for a strategy and a list of symbols: the column defaults for the risk and the
  news window, and the usual strategy parameters stored.
\<close>

definition settingsFor :: "string \<Rightarrow> string list \<Rightarrow> BotSettings" where
  "settingsFor strat symbols =
     \<lparr>strategy = strat, riskPerTrade = ''1.0'', tradingSymbols = symbols,
      newsAvoidanceMinutes = 30, strategyParams = Some defaultParams\<rparr>"

section \<open>Price history buffer\<close>

lemma updatePriceHistory_same:
  "priceHistory (updatePriceHistory b s p) s =
     Some (let h = historyOf b s @ [p] in if length h > 200 then tl h else h)"
  by (simp add: updatePriceHistory_def historyOf_def Let_def)

lemma updatePriceHistory_other:
  "s' \<noteq> s \<Longrightarrow> priceHistory (updatePriceHistory b s p) s' = priceHistory b s'"
  by (simp add: updatePriceHistory_def Let_def)

lemma last200_step:
  assumes "length h \<le> 200"
  shows "(let h' = h @ [p] in if length h' > 200 then tl h' else h')
         = drop (length (h @ [p]) - 200) (h @ [p])"
proof (cases "length h = 200")
  case True
  then obtain a t where "h = a # t" by (cases h) auto
  with True show ?thesis by simp
next
  case False
  with assms show ?thesis by simp
qed

lemma drop_drop_append:
  "drop (length (drop (length xs - n) xs @ ys) - n) (drop (length xs - n) xs @ ys)
   = drop (length (xs @ ys) - n) (xs @ ys)"
  by (cases "length xs \<le> n") (auto simp: add.commute)

lemma recordAll_history:
  "length (historyOf b s) \<le> 200 \<Longrightarrow>
   historyOf (recordAll b ops) s
   = drop (length (historyOf b s @ observed s ops) - 200) (historyOf b s @ observed s ops)"
proof (induction ops arbitrary: b)
  case Nil
  then show ?case by (simp add: observed_def)
next
  case (Cons op ops)
  obtain s' p where op: "op = (s', p)" by (cases op)
  show ?case
  proof (cases "s' = s")
    case True
    have h1: "historyOf (updatePriceHistory b s p) s
              = drop (length (historyOf b s @ [p]) - 200) (historyOf b s @ [p])"
      using last200_step[OF Cons.prems, of p] updatePriceHistory_same[of b s p]
      by (simp add: historyOf_def)
    have len: "length (historyOf (updatePriceHistory b s p) s) \<le> 200"
      unfolding h1 using Cons.prems by simp
    show ?thesis
      using Cons.IH[OF len] drop_drop_append[of "historyOf b s @ [p]" 200 "observed s ops"]
      by (simp add: op True h1 observed_def)
  next
    case False
    have h1: "historyOf (updatePriceHistory b s' p) s = historyOf b s"
      using False by (simp add: historyOf_def updatePriceHistory_other)
    show ?thesis using Cons.IH[of "updatePriceHistory b s' p"] Cons.prems False
      by (simp add: op h1 observed_def)
  qed
qed

lemma historyOf_fresh: "historyOf (createTradingBot acc) s = []"
  by (simp add: historyOf_def createTradingBot_def)

text \<open>
  Claim C9. After any sequence of \<open>record(symbol, price)\<close> operations on a new engine, the
  history of a symbol is the last 200 of the prices observed for it, in the order of
  observation, so its length is at most 200. One operation appends the price and, when the
  history already held 200 prices, drops the oldest one; the other symbols are untouched.
  The operation is a total function: it never fails.
\<close>

theorem price_history_bounded_fifo:
  "historyOf (recordAll (createTradingBot acc) ops) s
     = drop (length (observed s ops) - 200) (observed s ops)
   \<and> length (historyOf (recordAll (createTradingBot acc) ops) s) \<le> 200
   \<and> historyOf (updatePriceHistory b s p) s
     = (if length (historyOf b s) < 200 then historyOf b s @ [p] else tl (historyOf b s @ [p]))
   \<and> (\<forall>s'. s' \<noteq> s \<longrightarrow> historyOf (updatePriceHistory b s p) s' = historyOf b s')"
proof -
  have a: "historyOf (recordAll (createTradingBot acc) ops) s
           = drop (length (observed s ops) - 200) (observed s ops)"
    using recordAll_history[of "createTradingBot acc" s ops] by (simp add: historyOf_fresh)
  have b: "length (historyOf (recordAll (createTradingBot acc) ops) s) \<le> 200"
    unfolding a by simp
  have c: "historyOf (updatePriceHistory b s p) s
     = (if length (historyOf b s) < 200 then historyOf b s @ [p] else tl (historyOf b s @ [p]))"
    using updatePriceHistory_same[of b s p] by (auto simp: historyOf_def Let_def)
  have d: "\<forall>s'. s' \<noteq> s \<longrightarrow> historyOf (updatePriceHistory b s p) s' = historyOf b s'"
    by (simp add: historyOf_def updatePriceHistory_other)
  from a b c d show ?thesis by blast
qed

theorem price_history_bounded_fifo_witness:
  "historyOf (recordAll (createTradingBot ''acc'')
      [(''EURUSD'', 1), (''GBPUSD'', 2), (''EURUSD'', 3)]) ''EURUSD'' = [1, 3]
   \<and> historyOf (updatePriceHistory (createTradingBot ''acc'') ''EURUSD'' 1) ''GBPUSD'' = []"
  using price_history_bounded_fifo[of "''acc''" "[(''EURUSD'', 1), (''GBPUSD'', 2), (''EURUSD'', 3)]"
      "''EURUSD''" "createTradingBot ''acc''" 1]
  by (simp add: observed_def historyOf_fresh)

section \<open>Signal generator: the minimum of data\<close>

text \<open>
  Claim C6. A symbol with fewer than 50 recorded prices, or with none, gets no signal,
  whatever the strategy and its parameters.
\<close>

theorem no_signal_below_50_prices:
  "length (historyOf b s) < 50 \<Longrightarrow> generateTradingSignal b s = None"
  by (auto simp: generateTradingSignal_def historyOf_def split: option.splits)

theorem no_signal_below_50_prices_witness:
  "length (historyOf (updatePriceHistory (createTradingBot ''acc'') ''EURUSD'' 1) ''EURUSD'') < 50
   \<and> generateTradingSignal (updatePriceHistory (createTradingBot ''acc'') ''EURUSD'' 1) ''EURUSD'' = None"
proof -
  have h: "length (historyOf (updatePriceHistory (createTradingBot ''acc'') ''EURUSD'' 1) ''EURUSD'') < 50"
    by (simp add: historyOf_def updatePriceHistory_def createTradingBot_def)
  from h no_signal_below_50_prices[OF h] show ?thesis by simp
qed

section \<open>Relative strength index\<close>

lemma foldl_plus_sum_list: "foldl (\<lambda>acc x. acc + x) a xs = a + sum_list (xs :: real list)"
  by (induction xs arbitrary: a) simp_all




lemma avgLoss_finite:
  "1 \<le> period \<Longrightarrow>
   avgLoss prices period = Fin (sum_list (slice_from (losses prices) (- period)) / real_of_int period)"
  by (simp add: avgLoss_def foldl_plus_sum_list)

lemma avgGain_finite:
  "1 \<le> period \<Longrightarrow>
   avgGain prices period = Fin (sum_list (slice_from (gains prices) (- period)) / real_of_int period)"
  by (simp add: avgGain_def foldl_plus_sum_list)


lemma losses_replicate: "losses (replicate n c) = replicate (n - 1) 0"
proof (induction n)
  case 0
  then show ?case by simp
next
  case (Suc n)
  then show ?case by (cases n) (simp_all add: Let_def)
qed

lemma gains_replicate: "gains (replicate n c) = replicate (n - 1) 0"
proof (induction n)
  case 0
  then show ?case by simp
next
  case (Suc n)
  then show ?case by (cases n) (simp_all add: Let_def)
qed

lemma sum_list_replicate0: "sum_list (replicate n (0::real)) = 0"
  by (induction n) simp_all

lemma avg_constant:
  assumes "1 \<le> period"
  shows "avgLoss (replicate n c) period = Fin 0" and "avgGain (replicate n c) period = Fin 0"
  using assms
  by (simp_all add: avgLoss_finite avgGain_finite losses_replicate gains_replicate slice_from_def
        sum_list_replicate0)




section \<open>Risk sizer\<close>

text \<open>
  Claim C3 as stated fails: with a balance of 100000 and the configured value \<open>0.01\<close> read
  as a fraction, the risk amount would be 1000; the code computes 10.
\<close>

theorem risk_amount_fraction_counterexample:
  "parseFloat ''0.01'' = Fin 0.01
   \<and> riskAmount 100000 ''0.01'' = Fin 10
   \<and> riskAmount 100000 ''0.01'' \<noteq> Fin (100000 * 0.01)"
  by (simp add: riskAmount_def parseFloat_def unsigned_literal_def is_space_def is_digit_def
      Let_def)

text \<open>
  Claim C3, amended. The configured risk per trade is a percentage: for a balance \<open>bal\<close>
  and a configured value that parses to \<open>pct\<close>, the risk amount is
  \<open>bal \<times> (pct / 100)\<close>, so that 1 means 1% of the balance.
\<close>

theorem risk_amount_is_percentage:
  "parseFloat risk = Fin pct \<Longrightarrow> riskAmount bal risk = Fin (bal * (pct / 100))"
  by (simp add: riskAmount_def)

theorem risk_amount_is_percentage_witness:
  "parseFloat ''1.0'' = Fin 1 \<and> riskAmount 100000 ''1.0'' = Fin 1000"
proof -
  have h: "parseFloat ''1.0'' = Fin 1"
    by (simp add: parseFloat_def unsigned_literal_def is_space_def is_digit_def Let_def)
  from h risk_amount_is_percentage[OF h, of 100000] show ?thesis by simp
qed








section \<open>News gate\<close>

lemma executeSignal_news_irrelevant:
  "executeSignal b sg (r\<lparr>getUpcomingNews := f\<rparr>) = executeSignal b sg r"
  by (simp add: executeSignal_def cong: option.case_cong sum.case_cong)

text \<open>
  Claim C10. When the lookup of upcoming news throws, \<open>shouldPauseTradingForNews\<close> answers
  false, and the evaluation of the symbol is the one it would be with no news at all. A
  symbol of fewer than 6 characters has no currency codes and is never paused.
\<close>

theorem news_gate_fails_open:
  "(lookup (real_of_int minutes / 60) = Inl e \<longrightarrow>
      shouldPauseTradingForNews lookup s minutes = False)
   \<and> (getUpcomingNews r (real_of_int (newsAvoidanceMinutes st) / 60) = Inl e \<longrightarrow>
        evaluateSymbol b st s r = evaluateSymbol b st s (r\<lparr>getUpcomingNews := \<lambda>hours. Inr []\<rparr>))
   \<and> (length s < 6 \<longrightarrow>
        extractCurrenciesFromSymbol s = [] \<and> shouldPauseTradingForNews lookup s minutes = False)"
proof -
  have a: "lookup (real_of_int minutes / 60) = Inl e \<longrightarrow>
      shouldPauseTradingForNews lookup s minutes = False"
    by (simp add: shouldPauseTradingForNews_def)
  have b: "getUpcomingNews r (real_of_int (newsAvoidanceMinutes st) / 60) = Inl e \<longrightarrow>
        evaluateSymbol b st s r = evaluateSymbol b st s (r\<lparr>getUpcomingNews := \<lambda>hours. Inr []\<rparr>)"
    by (simp add: evaluateSymbol_def shouldPauseTradingForNews_def executeSignal_news_irrelevant
        Let_def cong: option.case_cong sum.case_cong if_cong)
  have c: "length s < 6 \<longrightarrow>
        extractCurrenciesFromSymbol s = [] \<and> shouldPauseTradingForNews lookup s minutes = False"
    by (auto simp: extractCurrenciesFromSymbol_def shouldPauseTradingForNews_def list_ex_iff
        split: sum.splits)
  from a b c show ?thesis by blast
qed

theorem news_gate_fails_open_witness:
  "shouldPauseTradingForNews (\<lambda>hours. Inl (Error ''connection refused'')) ''EURUSD'' 30 = False
   \<and> evaluateSymbol (createTradingBot ''acc'') (settingsFor ''ma_crossover'' [''EURUSD'']) ''EURUSD''
        ((mockResponses 0 (\<lambda>trade. Inr ()))\<lparr>getUpcomingNews := \<lambda>hours. Inl (Error ''connection refused'')\<rparr>)
      = evaluateSymbol (createTradingBot ''acc'') (settingsFor ''ma_crossover'' [''EURUSD'']) ''EURUSD''
        ((mockResponses 0 (\<lambda>trade. Inr ()))\<lparr>getUpcomingNews := \<lambda>hours. Inr []\<rparr>)
   \<and> length ''GOLD'' < 6 \<and> extractCurrenciesFromSymbol ''GOLD'' = []
   \<and> shouldPauseTradingForNews
        (\<lambda>hours. Inr [\<lparr>title = ''Non-Farm Payrolls'', currency = ''USD'', impact = ''high''\<rparr>])
        ''GOLD'' 30 = False"
  using news_gate_fails_open[of "\<lambda>hours. Inl (Error ''connection refused'')" 30
      "Error ''connection refused''" "''EURUSD''"
      "(mockResponses 0 (\<lambda>trade. Inr ()))\<lparr>getUpcomingNews := \<lambda>hours. Inl (Error ''connection refused'')\<rparr>"
      "settingsFor ''ma_crossover'' [''EURUSD'']" "createTradingBot ''acc''"]
    news_gate_fails_open[of
      "\<lambda>hours. Inr [\<lparr>title = ''Non-Farm Payrolls'', currency = ''USD'', impact = ''high''\<rparr>]"
      30 "Error []" "''GOLD''"]
  by simp

section \<open>Lifecycle: the reported status\<close>




section \<open>Moving-average crossover\<close>


lemma calculateSMA_average:
  assumes "1 \<le> period" and "period \<le> int (length prices)"
  shows "calculateSMA prices period
         = Fin (sum_list (drop (length prices - nat period) prices) / real_of_int period)"
proof -
  have k: "relative_index (length prices) (- period) = length prices - nat period"
    using assms by (simp add: relative_index_def nat_diff_distrib')
  have l: "real (length prices - (length prices - nat period)) = real_of_int period"
    using assms by auto
  show ?thesis
    using assms by (simp add: calculateSMA_def slice_from_def k l foldl_plus_sum_list Let_def)
qed






section \<open>Failures during a tick\<close>

lemma updatePriceHistory_fields:
  "isRunning (updatePriceHistory b s p) = isRunning b"
  "settings (updatePriceHistory b s p) = settings b"
  "lastSignalTime (updatePriceHistory b s p) = lastSignalTime b"
  by (simp_all add: updatePriceHistory_def Let_def)



lemma evaluateSymbol_cases:
  assumes "evaluateSymbol b st s r = Inr (b1, effs)"
  shows "(b1 = b \<and> effs = [Emit (NewsPause s ''High impact news event approaching'')])
       \<or> (\<exists>pd. getSymbolInfo r s = Inr pd
              \<and> ((b1 = updatePriceHistory b s (bid pd) \<and> effs = [])
                   \<or> (\<exists>sg. generateTradingSignal (updatePriceHistory b s (bid pd)) s = Some sg
                          \<and> shouldExecuteSignal (updatePriceHistory b s (bid pd)) s sg (dateNow r)
                          \<and> executeSignal (updatePriceHistory b s (bid pd)) sg r = (b1, effs))))"
  using assms
  by (auto simp: evaluateSymbol_def Let_def split: sum.splits option.splits if_splits)










section \<open>Cooldown\<close>

lemma cooldown_blocks:
  "lastSignalTime b s = Some t \<Longrightarrow> now - t < minSignalInterval \<Longrightarrow>
   \<not> shouldExecuteSignal b s sg now"
  by (simp add: shouldExecuteSignal_def)

lemma executeSignal_lastSignalTime:
  assumes "executeSignal b sg r = (b1, effs)"
  shows "(lastSignalTime b1 = lastSignalTime b \<and> \<not> list_ex isTradeExecuted effs)
       \<or> (lastSignalTime b1 = (lastSignalTime b)(symbol sg \<mapsto> dateNowExec r)
           \<and> list_ex isTradeExecuted effs)"
  using assms
  by (auto simp: executeSignal_def Let_def split: option.splits sum.splits)

lemma maStrategy_symbol: "maStrategy b s prices = Some sg \<Longrightarrow> symbol sg = s"
  by (auto simp: maStrategy_def Let_def split: if_splits)

lemma rsiStrategy_symbol: "rsiStrategy b s prices = Some sg \<Longrightarrow> symbol sg = s"
  by (auto simp: rsiStrategy_def Let_def split: if_splits)

lemma generateTradingSignal_symbol: "generateTradingSignal b s = Some sg \<Longrightarrow> symbol sg = s"
  by (auto simp: generateTradingSignal_def maStrategy_symbol rsiStrategy_symbol
      split: option.splits if_splits)

lemma evaluateSymbol_lastSignalTime:
  assumes "evaluateSymbol b st s r = Inr (b1, effs)"
  shows "(lastSignalTime b1 = lastSignalTime b \<and> \<not> list_ex isTradeExecuted effs)
       \<or> (lastSignalTime b1 = (lastSignalTime b)(s \<mapsto> dateNowExec r)
           \<and> list_ex isTradeExecuted effs)"
proof -
  consider "b1 = b" "effs = [Emit (NewsPause s ''High impact news event approaching'')]"
    | p where "b1 = updatePriceHistory b s p" "effs = []"
    | p sg where "generateTradingSignal (updatePriceHistory b s p) s = Some sg"
        "executeSignal (updatePriceHistory b s p) sg r = (b1, effs)"
    using evaluateSymbol_cases[OF assms] by blast
  then show ?thesis
  proof cases
    case 1
    then show ?thesis by simp
  next
    case 2
    then show ?thesis by (simp add: updatePriceHistory_fields)
  next
    case 3
    from executeSignal_lastSignalTime[OF 3(2)] generateTradingSignal_symbol[OF 3(1)]
    show ?thesis by (simp add: updatePriceHistory_fields)
  qed
qed

lemma evaluateSymbol_blocked:
  assumes "evaluateSymbol b st s r = Inr (b1, effs)"
    and "lastSignalTime b s = Some t" and "dateNow r - t < minSignalInterval"
  shows "\<not> list_ex isSendOrder effs \<and> lastSignalTime b1 = lastSignalTime b"
proof -
  have "\<And>p sg. \<not> shouldExecuteSignal (updatePriceHistory b s p) s sg (dateNow r)"
    using assms(2,3) by (simp add: cooldown_blocks updatePriceHistory_fields)
  then consider "b1 = b" "effs = [Emit (NewsPause s ''High impact news event approaching'')]"
    | p where "b1 = updatePriceHistory b s p" "effs = []"
    using evaluateSymbol_cases[OF assms(1)] by blast
  then show ?thesis
    by cases (simp_all add: updatePriceHistory_fields)
qed

lemma evaluations_keeps_floor:
  assumes "lastSignalTime b s = Some t" and "T \<le> t"
    and "\<forall>(s', r') \<in> set steps. T \<le> dateNowExec r'"
  shows "\<exists>t'. lastSignalTime (evaluations b st steps) s = Some t' \<and> T \<le> t'"
  using assms
proof (induction steps arbitrary: b t)
  case Nil
  then show ?case by simp
next
  case (Cons step steps)
  obtain s' r' where step: "step = (s', r')" by (cases step)
  have later: "T \<le> dateNowExec r'" and rest: "\<forall>(s', r') \<in> set steps. T \<le> dateNowExec r'"
    using Cons.prems(3) by (auto simp: step)
  show ?case
  proof (cases "evaluateSymbol b st s' r'")
    case (Inl e)
    with Cons.IH[OF Cons.prems(1,2) rest] show ?thesis by (simp add: step)
  next
    case (Inr res)
    obtain b1 effs where res: "res = (b1, effs)" by (cases res)
    have "\<exists>t1. lastSignalTime b1 s = Some t1 \<and> T \<le> t1"
      using evaluateSymbol_lastSignalTime[OF Inr[unfolded res]] Cons.prems(1,2) later
      by (cases "s' = s") auto
    then obtain t1 where "lastSignalTime b1 s = Some t1" and "T \<le> t1" by blast
    from Cons.IH[OF this rest] show ?thesis by (simp add: step Inr res)
  qed
qed

section \<open>A run on a constant price\<close>

lemma rsi_constant:
  assumes "1 \<le> period" and "period + 1 \<le> int n"
  shows "calculateRSI (replicate n c) period = Fin 100"
  using assms avg_constant(1)[OF assms(1), of n c] by (simp add: calculateRSI_def)

lemma rsiStrategy_constant:
  assumes "paramsOf b = defaultParams" and "15 \<le> n"
  shows "rsiStrategy b s (replicate n c)
         = Some \<lparr>symbol = s, action = SELL, confidence = 0.6,
                 reason = ''RSI Overbought ('' @ toFixed2 (Fin 100) @ '')'',
                 stopLoss = Some (Fin (c * 1.005)), takeProfit = Some (Fin (c * 0.985))\<rparr>"
proof -
  have r: "calculateRSI (replicate n c) 14 = Fin 100"
    using assms(2) by (intro rsi_constant) simp_all
  have l: "last_price (replicate n c) = Fin c"
    using assms(2) by (cases n) (simp_all add: last_price_def)
  show ?thesis
    using assms(2) by (simp add: rsiStrategy_def assms(1) defaultParams_def r l num_gt_def Let_def)
qed

lemma updatePriceHistory_constant:
  assumes "priceHistory b s = Some (replicate n c)" and "n < 200"
  shows "priceHistory (updatePriceHistory b s c) s = Some (replicate (Suc n) c)"
  using assms
  by (simp add: updatePriceHistory_same historyOf_def Let_def replicate_append_same)

lemma rsi_constant_evaluation:
  assumes p: "paramsOf b = defaultParams" and sn: "strategyOf b = ''rsi_strategy''"
    and h: "priceHistory b s = Some (replicate n (bid pd))"
    and n: "49 \<le> n" "n < 200"
    and l: "lastSignalTime b s = None"
    and news: "\<not> shouldPauseTradingForNews (getUpcomingNews r) s (newsAvoidanceMinutes st)"
    and fetch: "getSymbolInfo r s = Inr pd"
    and t: "minSignalInterval \<le> dateNow r"
  shows "evaluateSymbol b st s r
         = Inr (executeSignal (updatePriceHistory b s (bid pd))
                  \<lparr>symbol = s, action = SELL, confidence = 0.6,
                   reason = ''RSI Overbought ('' @ toFixed2 (Fin 100) @ '')'',
                   stopLoss = Some (Fin (bid pd * 1.005)),
                   takeProfit = Some (Fin (bid pd * 0.985))\<rparr>
                  r)"
proof -
  let ?b1 = "updatePriceHistory b s (bid pd)"
  let ?sg = "\<lparr>symbol = s, action = SELL, confidence = 0.6,
                   reason = ''RSI Overbought ('' @ toFixed2 (Fin 100) @ '')'',
                   stopLoss = Some (Fin (bid pd * 1.005)),
                   takeProfit = Some (Fin (bid pd * 0.985))\<rparr>"
  have h1: "priceHistory ?b1 s = Some (replicate (Suc n) (bid pd))"
    using h n(2) by (rule updatePriceHistory_constant)
  have p1: "paramsOf ?b1 = defaultParams" and s1: "strategyOf ?b1 = ''rsi_strategy''"
    using p sn by (simp_all add: paramsOf_def strategyOf_def updatePriceHistory_fields)
  have len: "\<not> length (replicate (Suc n) (bid pd)) < 50" and fifteen: "15 \<le> Suc n"
    using n(1) by simp_all
  have gen: "generateTradingSignal ?b1 s = Some ?sg"
    unfolding generateTradingSignal_def h1 s1 option.case if_not_P[OF len]
    using rsiStrategy_constant[OF p1 fifteen, of s "bid pd"] by simp
  have adm: "shouldExecuteSignal ?b1 s ?sg (dateNow r)"
    using t by (simp add: shouldExecuteSignal_def updatePriceHistory_fields l)
  show ?thesis
    unfolding evaluateSymbol_def if_not_P[OF news] fetch sum.case Let_def gen option.case
      if_P[OF adm] ..
qed

lemma executeSignal_store_fails:
  assumes "settings b = Some st" and "getAccountInfo r = Inr acct"
    and "getSymbolInfoExec r (symbol sg) = Inr pd"
    and "\<And>req. req_symbol req = symbol sg \<Longrightarrow> \<exists>res. sendOrder r req = Inr res"
    and "\<And>tr. createTrade r tr = Inl e"
  shows "\<exists>req tr. executeSignal b sg r
           = (b, [SendOrder req, CreateTrade tr, Emit (ErrorEvent e)])"
proof -
  let ?req = "orderRequest sg (lotVolume (riskAmount (balance acct) (riskPerTrade st))
                                 (stopLossDistance (bid pd) (stopLoss sg)))"
  have "req_symbol ?req = symbol sg" by (simp add: orderRequest_def)
  from assms(4)[OF this] obtain res where "sendOrder r ?req = Inr res" ..
  then show ?thesis
    using assms(1,2,3,5) by (simp add: executeSignal_def Let_def)
qed

lemma executeSignal_store_ok:
  assumes "settings b = Some st" and "getAccountInfo r = Inr acct"
    and "getSymbolInfoExec r (symbol sg) = Inr pd"
    and "\<And>req. req_symbol req = symbol sg \<Longrightarrow> \<exists>res. sendOrder r req = Inr res"
    and "\<And>tr. createTrade r tr = Inr ()"
  shows "\<exists>req tr res. executeSignal b sg r
           = (b\<lparr>lastSignalTime := (lastSignalTime b)(symbol sg \<mapsto> dateNowExec r)\<rparr>,
              [SendOrder req, CreateTrade tr, Emit (TradeExecuted sg res)])"
proof -
  let ?req = "orderRequest sg (lotVolume (riskAmount (balance acct) (riskPerTrade st))
                                 (stopLossDistance (bid pd) (stopLoss sg)))"
  have "req_symbol ?req = symbol sg" by (simp add: orderRequest_def)
  from assms(4)[OF this] obtain res where "sendOrder r ?req = Inr res" ..
  then show ?thesis
    using assms(1,2,3,5) by (simp add: executeSignal_def Let_def)
qed

lemma runTradingLoop_single:
  assumes "isRunning b" and "settings b = Some st" and "tradingSymbols st = [s]"
    and "evaluateSymbol b st s (env 0) = Inr (b1, effs)"
  shows "runTradingLoop b env = (b1, effs)"
  using assms by (simp add: runTradingLoop_def)

lemma mock_news:
  "\<not> shouldPauseTradingForNews (getUpcomingNews (mockResponses t store)) s m"
  by (simp add: shouldPauseTradingForNews_def mockResponses_def)

lemma mock_EURUSD: "mockGetSymbolInfo ''EURUSD'' = Inr \<lparr>bid = 1.08675, ask = 1.08685\<rparr>"
  by (simp add: mockGetSymbolInfo_def mockPrices_def)

lemma mock_fields:
  "getSymbolInfo (mockResponses t store) = mockGetSymbolInfo"
  "getSymbolInfoExec (mockResponses t store) = mockGetSymbolInfo"
  "getAccountInfo (mockResponses t store) = Inr \<lparr>balance = 2000000, equity = 2001250\<rparr>"
  "sendOrder (mockResponses t store) = mockSendOrder t"
  "createTrade (mockResponses t store) = store"
  "dateNow (mockResponses t store) = t"
  "dateNowExec (mockResponses t store) = t"
  by (simp_all add: mockResponses_def)

lemma mock_order_EURUSD: "req_symbol req = ''EURUSD'' \<Longrightarrow> \<exists>res. mockSendOrder t req = Inr res"
  by (simp add: mockSendOrder_def mockPrices_def)


lemma mock_order_sent:
  "req_symbol req = ''EURUSD'' \<Longrightarrow> \<exists>res. sendOrder (mockResponses t store) req = Inr res"
  by (simp add: mock_fields mock_order_EURUSD)

lemma tick_store_fails:
  assumes run: "isRunning b" and st: "settings b = Some st" "tradingSymbols st = [s]"
    and p: "paramsOf b = defaultParams" and sn: "strategyOf b = ''rsi_strategy''"
    and h: "priceHistory b s = Some (replicate n (bid pd))"
    and n: "49 \<le> n" "n < 200"
    and l: "lastSignalTime b s = None"
    and news: "\<not> shouldPauseTradingForNews (getUpcomingNews (env 0)) s (newsAvoidanceMinutes st)"
    and fetch: "getSymbolInfo (env 0) s = Inr pd"
    and t: "minSignalInterval \<le> dateNow (env 0)"
    and acct: "getAccountInfo (env 0) = Inr acct"
    and fetch2: "getSymbolInfoExec (env 0) s = Inr pd2"
    and order: "\<And>req. req_symbol req = s \<Longrightarrow> \<exists>res. sendOrder (env 0) req = Inr res"
    and store: "\<And>tr. createTrade (env 0) tr = Inl e"
  shows "fst (runTradingLoop b env) = updatePriceHistory b s (bid pd)"
    and "map isSendOrder (snd (runTradingLoop b env)) = [True, False, False]"
proof -
  let ?b1 = "updatePriceHistory b s (bid pd)"
  let ?sg = "\<lparr>symbol = s, action = SELL, confidence = 0.6,
                   reason = ''RSI Overbought ('' @ toFixed2 (Fin 100) @ '')'',
                   stopLoss = Some (Fin (bid pd * 1.005)),
                   takeProfit = Some (Fin (bid pd * 0.985))\<rparr>"
  have st1: "settings ?b1 = Some st"
    by (simp add: updatePriceHistory_fields st)
  have sym: "symbol ?sg = s" by simp
  obtain req tr where ex: "executeSignal ?b1 ?sg (env 0)
      = (?b1, [SendOrder req, CreateTrade tr, Emit (ErrorEvent e)])"
    using executeSignal_store_fails[OF st1 acct, of ?sg pd2 e] fetch2 order store
    unfolding sym by blast
  have "evaluateSymbol b st s (env 0)
        = Inr (?b1, [SendOrder req, CreateTrade tr, Emit (ErrorEvent e)])"
    using rsi_constant_evaluation[OF p sn h n l news fetch t] ex by simp
  from runTradingLoop_single[where env = env, OF run st this]
  show "fst (runTradingLoop b env) = ?b1"
    and "map isSendOrder (snd (runTradingLoop b env)) = [True, False, False]"
    by simp_all
qed

text \<open>
  Claim C1 as stated fails. With the RSI strategy on a constant price and a store that
  rejects the trade, two consecutive ticks, 10 seconds apart, each admit the signal for
  EURUSD and send its order: the time of the last signal is set only once the trade is
  stored.
\<close>

theorem cooldown_after_admission_counterexample:
  "map isSendOrder (snd (runTradingLoop
      ((fst (start (createTradingBot ''default-account'')
               (Inr (Some (settingsFor ''rsi_strategy'' [''EURUSD'']))) True))
         \<lparr>priceHistory := [''EURUSD'' \<mapsto> replicate 49 1.08675]\<rparr>)
      (\<lambda>i. mockResponses 1700000000000 (\<lambda>trade. Inl (Error ''insert failed'')))))
   = [True, False, False]
   \<and> map isSendOrder (snd (runTradingLoop
      (fst (runTradingLoop
        ((fst (start (createTradingBot ''default-account'')
               (Inr (Some (settingsFor ''rsi_strategy'' [''EURUSD'']))) True))
         \<lparr>priceHistory := [''EURUSD'' \<mapsto> replicate 49 1.08675]\<rparr>)
        (\<lambda>i. mockResponses 1700000000000 (\<lambda>trade. Inl (Error ''insert failed'')))))
      (\<lambda>i. mockResponses 1700000010000 (\<lambda>trade. Inl (Error ''insert failed'')))))
   = [True, False, False]
   \<and> dateNow (mockResponses 1700000010000 (\<lambda>trade. Inl (Error ''insert failed'')))
       - dateNow (mockResponses 1700000000000 (\<lambda>trade. Inl (Error ''insert failed''))) = 10000
   \<and> 10000 < minSignalInterval"
proof -
  let ?st = "settingsFor ''rsi_strategy'' [''EURUSD'']"
  let ?b0 = "(fst (start (createTradingBot ''default-account'') (Inr (Some ?st)) True))
               \<lparr>priceHistory := [''EURUSD'' \<mapsto> replicate 49 1.08675]\<rparr>"
  let ?pd = "\<lparr>bid = 1.08675, ask = 1.08685\<rparr>"
  let ?b1 = "updatePriceHistory ?b0 ''EURUSD'' (bid ?pd)"
  let ?e = "Error ''insert failed''"
  let ?env1 = "\<lambda>i::nat. mockResponses 1700000000000 (\<lambda>trade. Inl ?e)"
  let ?env2 = "\<lambda>i::nat. mockResponses 1700000010000 (\<lambda>trade. Inl ?e)"
  have run0: "isRunning ?b0" and st0: "settings ?b0 = Some ?st"
    and l0: "lastSignalTime ?b0 ''EURUSD'' = None"
    by (simp_all add: start_def createTradingBot_def)
  have sy: "tradingSymbols ?st = [''EURUSD'']" by (simp add: settingsFor_def)
  have p0: "paramsOf ?b0 = defaultParams" and sn0: "strategyOf ?b0 = ''rsi_strategy''"
    by (simp_all add: paramsOf_def strategyOf_def start_def createTradingBot_def settingsFor_def)
  have h0: "priceHistory ?b0 ''EURUSD'' = Some (replicate 49 (bid ?pd))"
    by simp
  have t1: "minSignalInterval \<le> dateNow (?env1 0)" and t2: "minSignalInterval \<le> dateNow (?env2 0)"
    by (simp_all add: minSignalInterval_def mock_fields)
  have n0: "49 \<le> (49::nat)" "(49::nat) < 200" and n1: "49 \<le> Suc 49" "Suc 49 < 200"
    by simp_all
  have f1: "getSymbolInfo (?env1 0) ''EURUSD'' = Inr ?pd"
    and g1: "getSymbolInfoExec (?env1 0) ''EURUSD'' = Inr ?pd"
    and f2: "getSymbolInfo (?env2 0) ''EURUSD'' = Inr ?pd"
    and g2: "getSymbolInfoExec (?env2 0) ''EURUSD'' = Inr ?pd"
    by (simp_all only: mock_fields mock_EURUSD)
  have a: "map isSendOrder (snd (runTradingLoop ?b0 ?env1)) = [True, False, False]"
    by (rule tick_store_fails(2)[where e = "Error ''insert failed''", OF run0 st0 sy p0 sn0 h0 n0 l0 mock_news f1 t1
          mock_fields(3) g1 mock_order_sent]) (simp_all add: mockResponses_def)
  have f: "fst (runTradingLoop ?b0 ?env1) = ?b1"
    by (rule tick_store_fails(1)[where e = "Error ''insert failed''", OF run0 st0 sy p0 sn0 h0 n0 l0 mock_news f1 t1
          mock_fields(3) g1 mock_order_sent]) (simp_all add: mockResponses_def)
  have run1: "isRunning ?b1" and st1: "settings ?b1 = Some ?st"
    and l1: "lastSignalTime ?b1 ''EURUSD'' = None"
    using run0 st0 l0 by (simp_all only: updatePriceHistory_fields)
  have p1: "paramsOf ?b1 = defaultParams" and sn1: "strategyOf ?b1 = ''rsi_strategy''"
    using p0 sn0 by (simp_all add: paramsOf_def strategyOf_def updatePriceHistory_fields)
  have h1: "priceHistory ?b1 ''EURUSD'' = Some (replicate (Suc 49) (bid ?pd))"
    by (rule updatePriceHistory_constant[OF h0 n0(2)])
  have b: "map isSendOrder (snd (runTradingLoop ?b1 ?env2)) = [True, False, False]"
    by (rule tick_store_fails(2)[where e = "Error ''insert failed''", OF run1 st1 sy p1 sn1 h1 n1 l1 mock_news f2 t2
          mock_fields(3) g2 mock_order_sent]) (simp_all add: mockResponses_def)
  have c: "dateNow (mockResponses 1700000010000 (\<lambda>trade. Inl ?e))
           - dateNow (mockResponses 1700000000000 (\<lambda>trade. Inl ?e)) = 10000"
    by (simp add: mock_fields)
  have d: "10000 < minSignalInterval"
    by (simp add: minSignalInterval_def)
  have b1: "?b1 = updatePriceHistory ?b0 ''EURUSD'' 1.08675" by simp
  show ?thesis
    using a b c d unfolding f b1 by blast
qed

text \<open>
  Claim C1, amended. Once an evaluation of a symbol has executed a trade (the order was sent
  and the trade stored), every later signal for that symbol generated less than 5 minutes
  after that admission is discarded, whatever its confidence, and no order is sent for it:
  this holds after any run of further evaluations, given that the clock does not go
  backwards.
\<close>

theorem cooldown_after_executed_trade:
  assumes "evaluateSymbol b st s r1 = Inr (b1, effs1)" and "list_ex isTradeExecuted effs1"
    and "dateNow r1 \<le> dateNowExec r1"
    and "\<forall>(s', r') \<in> set mid. dateNowExec r1 \<le> dateNowExec r'"
  shows "(now - dateNow r1 < minSignalInterval \<longrightarrow>
            \<not> shouldExecuteSignal (evaluations b1 st mid) s sg now)
       \<and> (dateNow r2 - dateNow r1 < minSignalInterval
            \<and> evaluateSymbol (evaluations b1 st mid) st s r2 = Inr (b3, effs3) \<longrightarrow>
            \<not> list_ex isSendOrder effs3
            \<and> lastSignalTime b3 = lastSignalTime (evaluations b1 st mid))"
proof -
  have "lastSignalTime b1 s = Some (dateNowExec r1)"
    using evaluateSymbol_lastSignalTime[OF assms(1)] assms(2) by auto
  from evaluations_keeps_floor[OF this order_refl assms(4)]
  obtain t where t: "lastSignalTime (evaluations b1 st mid) s = Some t"
    and le: "dateNowExec r1 \<le> t" by blast
  have a: "now - dateNow r1 < minSignalInterval \<longrightarrow>
            \<not> shouldExecuteSignal (evaluations b1 st mid) s sg now"
  proof
    assume "now - dateNow r1 < minSignalInterval"
    with le assms(3) have "now - t < minSignalInterval" by linarith
    with t show "\<not> shouldExecuteSignal (evaluations b1 st mid) s sg now"
      by (rule cooldown_blocks)
  qed
  have b: "dateNow r2 - dateNow r1 < minSignalInterval
            \<and> evaluateSymbol (evaluations b1 st mid) st s r2 = Inr (b3, effs3) \<longrightarrow>
            \<not> list_ex isSendOrder effs3
            \<and> lastSignalTime b3 = lastSignalTime (evaluations b1 st mid)"
  proof
    assume h: "dateNow r2 - dateNow r1 < minSignalInterval
            \<and> evaluateSymbol (evaluations b1 st mid) st s r2 = Inr (b3, effs3)"
    with le assms(3) have "dateNow r2 - t < minSignalInterval" by linarith
    with h t show "\<not> list_ex isSendOrder effs3
            \<and> lastSignalTime b3 = lastSignalTime (evaluations b1 st mid)"
      using evaluateSymbol_blocked by blast
  qed
  from a b show ?thesis by blast
qed

theorem cooldown_after_executed_trade_witness:
  "list_ex isTradeExecuted
     (snd (projr (evaluateSymbol
        ((fst (start (createTradingBot ''default-account'')
                 (Inr (Some (settingsFor ''rsi_strategy'' [''EURUSD'']))) True))
           \<lparr>priceHistory := [''EURUSD'' \<mapsto> replicate 49 1.08675]\<rparr>)
        (settingsFor ''rsi_strategy'' [''EURUSD'']) ''EURUSD''
        (mockResponses 1700000000000 (\<lambda>trade. Inr ())))))
   \<and> \<not> shouldExecuteSignal
        (evaluations
           (fst (projr (evaluateSymbol
              ((fst (start (createTradingBot ''default-account'')
                       (Inr (Some (settingsFor ''rsi_strategy'' [''EURUSD'']))) True))
                 \<lparr>priceHistory := [''EURUSD'' \<mapsto> replicate 49 1.08675]\<rparr>)
              (settingsFor ''rsi_strategy'' [''EURUSD'']) ''EURUSD''
              (mockResponses 1700000000000 (\<lambda>trade. Inr ())))))
           (settingsFor ''rsi_strategy'' [''EURUSD''])
           [(''GBPUSD'', mockResponses 1700000005000 (\<lambda>trade. Inr ()))])
        ''EURUSD''
        \<lparr>symbol = ''EURUSD'', action = SELL, confidence = 0.9, reason = ''RSI Overbought (100.00)'',
         stopLoss = None, takeProfit = None\<rparr>
        1700000010000"
proof -
  let ?st = "settingsFor ''rsi_strategy'' [''EURUSD'']"
  let ?b0 = "(fst (start (createTradingBot ''default-account'') (Inr (Some ?st)) True))
               \<lparr>priceHistory := [''EURUSD'' \<mapsto> replicate 49 1.08675]\<rparr>"
  let ?pd = "\<lparr>bid = 1.08675, ask = 1.08685\<rparr>"
  let ?b1 = "updatePriceHistory ?b0 ''EURUSD'' (bid ?pd)"
  let ?r1 = "mockResponses 1700000000000 (\<lambda>trade. Inr ())"
  let ?mid = "[(''GBPUSD'', mockResponses 1700000005000 (\<lambda>trade. Inr ()))]"
  let ?sg0 = "\<lparr>symbol = ''EURUSD'', action = SELL, confidence = 0.6,
                   reason = ''RSI Overbought ('' @ toFixed2 (Fin 100) @ '')'',
                   stopLoss = Some (Fin (bid ?pd * 1.005)),
                   takeProfit = Some (Fin (bid ?pd * 0.985))\<rparr>"
  let ?X = "evaluateSymbol ?b0 ?st ''EURUSD'' ?r1"
  have st0: "settings ?b0 = Some ?st" and l0: "lastSignalTime ?b0 ''EURUSD'' = None"
    by (simp_all add: start_def createTradingBot_def)
  have p0: "paramsOf ?b0 = defaultParams" and sn0: "strategyOf ?b0 = ''rsi_strategy''"
    by (simp_all add: paramsOf_def strategyOf_def start_def createTradingBot_def settingsFor_def)
  have h0: "priceHistory ?b0 ''EURUSD'' = Some (replicate 49 (bid ?pd))"
    by simp
  have n0: "49 \<le> (49::nat)" "(49::nat) < 200" by simp_all
  have t1: "minSignalInterval \<le> dateNow ?r1"
    by (simp add: minSignalInterval_def mock_fields)
  have f1: "getSymbolInfo ?r1 ''EURUSD'' = Inr ?pd"
    and g1: "getSymbolInfoExec ?r1 (symbol ?sg0) = Inr ?pd"
    by (simp_all add: mock_fields mock_EURUSD)
  have st1: "settings ?b1 = Some ?st"
    using st0 by (simp only: updatePriceHistory_fields)
  have "\<exists>req tr res. executeSignal ?b1 ?sg0 ?r1
      = (?b1\<lparr>lastSignalTime := (lastSignalTime ?b1)(symbol ?sg0 \<mapsto> dateNowExec ?r1)\<rparr>,
         [SendOrder req, CreateTrade tr, Emit (TradeExecuted ?sg0 res)])"
    by (rule executeSignal_store_ok[OF st1 mock_fields(3) g1])
      (simp_all add: mock_order_EURUSD mock_fields)
  then obtain req tr res where ex: "executeSignal ?b1 ?sg0 ?r1
      = (?b1\<lparr>lastSignalTime := (lastSignalTime ?b1)(symbol ?sg0 \<mapsto> dateNowExec ?r1)\<rparr>,
         [SendOrder req, CreateTrade tr, Emit (TradeExecuted ?sg0 res)])"
    by blast
  have ev: "?X = Inr (?b1\<lparr>lastSignalTime := (lastSignalTime ?b1)(symbol ?sg0 \<mapsto> dateNowExec ?r1)\<rparr>,
         [SendOrder req, CreateTrade tr, Emit (TradeExecuted ?sg0 res)])"
    using rsi_constant_evaluation[OF p0 sn0 h0 n0 l0 mock_news f1 t1, of ?st] ex by simp
  have hyp1: "?X = Inr (fst (projr ?X), snd (projr ?X))"
    and hyp2: "list_ex isTradeExecuted (snd (projr ?X))"
    unfolding ev by simp_all
  have hyp3: "dateNow ?r1 \<le> dateNowExec ?r1"
    by (simp add: mock_fields)
  have hyp4: "\<forall>(s', r') \<in> set ?mid. dateNowExec ?r1 \<le> dateNowExec r'"
    by (simp add: mock_fields)
  have close: "1700000010000 - dateNow ?r1 < minSignalInterval"
    by (simp add: mock_fields minSignalInterval_def)
  from cooldown_after_executed_trade[OF hyp1 hyp2 hyp3 hyp4,
      where now = 1700000010000
        and sg = "\<lparr>symbol = ''EURUSD'', action = SELL, confidence = 0.9,
                   reason = ''RSI Overbought (100.00)'', stopLoss = None, takeProfit = None\<rparr>"]
    close hyp2
  show ?thesis by blast
qed

end
